theory Spec2Isabelle
  imports Main "HOL-Library.Sublist"
begin

section \<open>Strings\<close>

text \<open>
  Strings are lists of 8-bit characters. \<open>toLowerCase\<close> is JavaScript's
  \<^verbatim>\<open>String.prototype.toLowerCase\<close> on ASCII text: the letters \<open>A\<close> to \<open>Z\<close>
  (codes 65 to 90) move to \<open>a\<close> to \<open>z\<close>, every other character stays.
\<close>

definition isUpperChar :: "char \<Rightarrow> bool" where
  "isUpperChar c = (65 \<le> (of_char c :: nat) \<and> (of_char c :: nat) \<le> 90)"

definition lowerChar :: "char \<Rightarrow> char" where
  "lowerChar c = (if isUpperChar c then char_of ((of_char c :: nat) + 32) else c)"

definition toLowerCase :: "string \<Rightarrow> string" where
  "toLowerCase s = map lowerChar s"

text \<open>A string is lower-case when it holds no upper-case letter.\<close>

definition isLowerCase :: "string \<Rightarrow> bool" where
  "isLowerCase s = list_all (\<lambda>c. \<not> isUpperChar c) s"

text \<open>
  \<^verbatim>\<open>s.replace(pat, rep)\<close> with a string pattern replaces the first occurrence of
  \<open>pat\<close> only; \<^verbatim>\<open>s.substring(a, b)\<close> clamps both indices to the length and swaps
  them when \<open>a > b\<close>.
\<close>

fun replace :: "string \<Rightarrow> string \<Rightarrow> string \<Rightarrow> string" where
  "replace pat rep [] = (if pat = [] then rep else [])"
| "replace pat rep (c # cs) =
     (if prefix pat (c # cs) then rep @ drop (length pat) (c # cs)
      else c # replace pat rep cs)"

definition substring :: "nat \<Rightarrow> nat \<Rightarrow> string \<Rightarrow> string" where
  "substring a b s = take (max a b - min a b) (drop (min a b) s)"

text \<open>
  An optional string parameter (\<^verbatim>\<open>pr?: string\<close>) is a \<open>string option\<close>; the test
  \<^verbatim>\<open>if (pr)\<close> holds when the parameter is given and not the empty string.
\<close>

definition truthy :: "string option \<Rightarrow> bool" where
  "truthy x = (case x of None \<Rightarrow> False | Some v \<Rightarrow> v \<noteq> [])"

definition lowerIfTruthy :: "string option \<Rightarrow> string option" where
  "lowerIfTruthy x = (if truthy x then map_option toLowerCase x else None)"

section \<open>RowKey generator\<close>

text \<open>
  \<^verbatim>\<open>uuid().replace("-", "").substring(0, 12)\<close>. The random UUID is the parameter
  \<open>u\<close>.
\<close>

definition getRowKey :: "string \<Rightarrow> string" where
  "getRowKey u = substring 0 12 (replace ''-'' [] u)"

definition isHexChar :: "char \<Rightarrow> bool" where
  "isHexChar c = (c \<in> set ''0123456789abcdefABCDEF'')"

text \<open>
  The canonical form of a UUID: 36 characters, groups of 8, 4, 4, 4 and 12 hexadecimal
  digits separated by dashes at the indices 8, 13, 18 and 23.
\<close>

definition isCanonicalUuid :: "string \<Rightarrow> bool" where
  "isCanonicalUuid u =
     (length u = 36 \<and>
      list_all isHexChar (take 8 u) \<and> u ! 8 = CHR ''-'' \<and>
      list_all isHexChar (take 4 (drop 9 u)) \<and> u ! 13 = CHR ''-'' \<and>
      list_all isHexChar (take 4 (drop 14 u)) \<and> u ! 18 = CHR ''-'' \<and>
      list_all isHexChar (take 4 (drop 19 u)) \<and> u ! 23 = CHR ''-'' \<and>
      list_all isHexChar (drop 24 u))"

section \<open>Data model\<close>

record DeploymentTable =
  accountName :: string
  accountKey :: string
  tableName :: string
  partitionKey :: string

text \<open>
  One table row. The record is the union of the interfaces \<^verbatim>\<open>RowSrcToACRPipeline\<close>,
  \<^verbatim>\<open>RowACRToHLDPipeline\<close>, \<^verbatim>\<open>RowHLDToManifestPipeline\<close> and \<^verbatim>\<open>RowManifest\<close>
  and of the entity interfaces read back from the table. A field that the code tests
  for presence (\<^verbatim>\<open>entry.p2 ? entry.p2._ === pipelineId : true\<close>) or that is declared
  optional is a \<open>string option\<close>, \<open>None\<close> meaning that the row has no such property.
\<close>

record Row =
  PartitionKey :: string
  RowKey :: string
  commitId :: string
  imageTag :: string
  p1 :: string
  service :: string
  sourceRepo :: "string option"
  p2 :: "string option"
  hldCommitId :: "string option"
  env :: "string option"
  pr :: "string option"
  hldRepo :: "string option"
  p3 :: "string option"
  manifestCommitId :: "string option"
  manifestRepo :: "string option"

datatype error = StoreWriteError | NoCorrelationFoundError

section \<open>The table service\<close>

text \<open>
  The table client (the \<^verbatim>\<open>azure-storage\<close> package) is not part of the repository.
  The state of the service is the list of stored rows, in the order in which a query
  returns them, together with the log of the calls made to the client.
\<close>

datatype call =
    QueryEntities string string string
  | InsertEntity Row
  | ReplaceEntity Row

record TableService =
  entities :: "Row list"
  calls :: "call list"

definition sameKey :: "Row \<Rightarrow> Row \<Rightarrow> bool" where
  "sameKey a b = (PartitionKey a = PartitionKey b \<and> RowKey a = RowKey b)"

text \<open>The value of the property of a row named by a filter.\<close>

definition property :: "string \<Rightarrow> Row \<Rightarrow> string option" where
  "property name r =
     (if name = ''PartitionKey'' then Some (PartitionKey r)
      else if name = ''RowKey'' then Some (RowKey r)
      else if name = ''commitId'' then Some (commitId r)
      else if name = ''imageTag'' then Some (imageTag r)
      else if name = ''p1'' then Some (p1 r)
      else if name = ''service'' then Some (service r)
      else if name = ''sourceRepo'' then sourceRepo r
      else if name = ''p2'' then p2 r
      else if name = ''hldCommitId'' then hldCommitId r
      else if name = ''env'' then env r
      else if name = ''pr'' then pr r
      else if name = ''hldRepo'' then hldRepo r
      else if name = ''p3'' then p3 r
      else if name = ''manifestCommitId'' then manifestCommitId r
      else if name = ''manifestRepo'' then manifestRepo r
      else None)"

text \<open>
  Modelled from the spec: the query primitive of the record store client, which is the
  external \<^verbatim>\<open>azure-storage\<close> package. It returns the rows of the partition whose
  named property equals the value exactly, in the store's order, and never fails.
\<close>

definition queryEntities ::
  "string \<Rightarrow> string \<Rightarrow> string \<Rightarrow> TableService \<Rightarrow> Row list \<times> TableService" where
  "queryEntities pk name v s =
     (filter (\<lambda>r. PartitionKey r = pk \<and> property name r = Some v) (entities s),
      s\<lparr>calls := calls s @ [QueryEntities pk name v]\<rparr>)"

text \<open>
  Modelled from the spec: the insert primitive of the record store client. It fails when
  a row with the same PartitionKey and RowKey exists, and adds the row otherwise.
\<close>

definition insertEntity :: "Row \<Rightarrow> TableService \<Rightarrow> (error + unit) \<times> TableService" where
  "insertEntity e s =
     (if list_ex (sameKey e) (entities s)
      then (Inl StoreWriteError, s\<lparr>calls := calls s @ [InsertEntity e]\<rparr>)
      else (Inr (), \<lparr>entities = entities s @ [e], calls = calls s @ [InsertEntity e]\<rparr>))"

text \<open>
  Modelled from the spec: the replace primitive of the record store client. The row with
  the key of the new row is replaced as a whole, at its place; the call fails when there
  is no such row.
\<close>

fun replaceRow :: "Row \<Rightarrow> Row list \<Rightarrow> Row list option" where
  "replaceRow e [] = None"
| "replaceRow e (r # rs) =
     (if sameKey r e then Some (e # rs) else map_option ((#) r) (replaceRow e rs))"

definition replaceEntity :: "Row \<Rightarrow> TableService \<Rightarrow> (error + unit) \<times> TableService" where
  "replaceEntity e s =
     (case replaceRow e (entities s) of
        None \<Rightarrow> (Inl StoreWriteError, s\<lparr>calls := calls s @ [ReplaceEntity e]\<rparr>)
      | Some rows \<Rightarrow> (Inr (), \<lparr>entities = rows, calls = calls s @ [ReplaceEntity e]\<rparr>))"

section \<open>Table access of the repository\<close>

definition findMatchingDeployments ::
  "DeploymentTable \<Rightarrow> string \<Rightarrow> string \<Rightarrow> TableService \<Rightarrow> Row list \<times> TableService" where
  "findMatchingDeployments tableInfo filterName filterValue s =
     queryEntities (partitionKey tableInfo) filterName filterValue s"

definition insertToTable ::
  "DeploymentTable \<Rightarrow> Row \<Rightarrow> TableService \<Rightarrow> (error + unit) \<times> TableService" where
  "insertToTable tableInfo entry s = insertEntity entry s"

definition updateEntryInTable ::
  "DeploymentTable \<Rightarrow> Row \<Rightarrow> TableService \<Rightarrow> (error + unit) \<times> TableService" where
  "updateEntryInTable tableInfo entry s = replaceEntity entry s"

text \<open>
  \<^verbatim>\<open>await write(...); return entry;\<close>: the row is returned when the write succeeded,
  the error of the write is passed on otherwise.
\<close>

definition returning :: "'a \<Rightarrow> (error + unit) \<times> TableService \<Rightarrow> (error + 'a) \<times> TableService" where
  "returning x w = (case w of (Inl e, s) \<Rightarrow> (Inl e, s) | (Inr u, s) \<Rightarrow> (Inr x, s))"

section \<open>Stage 1: source build to image\<close>

definition addSrcToACRPipeline ::
  "DeploymentTable \<Rightarrow> string \<Rightarrow> string \<Rightarrow> string \<Rightarrow> string \<Rightarrow> string \<Rightarrow> string option \<Rightarrow>
   TableService \<Rightarrow> (error + Row) \<times> TableService" where
  "addSrcToACRPipeline tableInfo u pipelineId imageTag' serviceName commitId' repository s =
     (let entry = \<lparr>PartitionKey = partitionKey tableInfo, RowKey = getRowKey u,
                   commitId = commitId', imageTag = imageTag', p1 = pipelineId,
                   service = serviceName, sourceRepo = lowerIfTruthy repository,
                   p2 = None, hldCommitId = None, env = None, pr = None, hldRepo = None,
                   p3 = None, manifestCommitId = None, manifestRepo = None\<rparr>
      in returning entry (insertToTable tableInfo entry s))"

section \<open>Stage 2: image to HLD release\<close>

definition matchesArcToHLD :: "string \<Rightarrow> string \<Rightarrow> string \<Rightarrow> Row \<Rightarrow> bool" where
  "matchesArcToHLD pipelineId hldCommitId' env' entry =
     ((case p2 entry of Some v \<Rightarrow> v = pipelineId | None \<Rightarrow> True) \<and>
      (case hldCommitId entry of Some v \<Rightarrow> v = hldCommitId' | None \<Rightarrow> True) \<and>
      (case env entry of Some v \<Rightarrow> v = env' | None \<Rightarrow> True))"

definition updateMatchingArcToHLDPipelineEntry ::
  "Row list \<Rightarrow> DeploymentTable \<Rightarrow> string \<Rightarrow> string \<Rightarrow> string \<Rightarrow> string \<Rightarrow>
   string option \<Rightarrow> string option \<Rightarrow> TableService \<Rightarrow> (error + Row option) \<times> TableService" where
  "updateMatchingArcToHLDPipelineEntry entries tableInfo pipelineId imageTag' hldCommitId' env'
       pr' repository s =
     (case find (matchesArcToHLD pipelineId hldCommitId' env') entries of
        Some found \<Rightarrow>
          (let updateEntry = \<lparr>PartitionKey = PartitionKey found, RowKey = RowKey found,
                   commitId = commitId found, imageTag = imageTag found, p1 = p1 found,
                   service = service found, sourceRepo = sourceRepo found,
                   p2 = Some (toLowerCase pipelineId),
                   hldCommitId = Some (toLowerCase hldCommitId'),
                   env = Some (toLowerCase env'),
                   pr = lowerIfTruthy pr', hldRepo = lowerIfTruthy repository,
                   p3 = None, manifestCommitId = None, manifestRepo = None\<rparr>
           in returning (Some updateEntry) (updateEntryInTable tableInfo updateEntry s))
      | None \<Rightarrow> (Inr None, s))"

definition updateLastRowOfArcToHLDPipelines ::
  "Row list \<Rightarrow> DeploymentTable \<Rightarrow> string \<Rightarrow> string \<Rightarrow> string \<Rightarrow> string \<Rightarrow> string \<Rightarrow>
   string option \<Rightarrow> string option \<Rightarrow> TableService \<Rightarrow> (error + Row) \<times> TableService" where
  "updateLastRowOfArcToHLDPipelines entries tableInfo u pipelineId imageTag' hldCommitId' env'
       pr' repository s =
     (let lastEntry = last entries;
          lastRow = \<lparr>PartitionKey = PartitionKey lastEntry, RowKey = getRowKey u,
                   commitId = commitId lastEntry, imageTag = imageTag lastEntry,
                   p1 = p1 lastEntry, service = service lastEntry,
                   sourceRepo = sourceRepo lastEntry,
                   p2 = Some (toLowerCase pipelineId),
                   hldCommitId = Some (toLowerCase hldCommitId'),
                   env = Some (toLowerCase env'),
                   pr = lowerIfTruthy pr', hldRepo = lowerIfTruthy repository,
                   p3 = None, manifestCommitId = None, manifestRepo = None\<rparr>
      in returning lastRow (insertToTable tableInfo lastRow s))"

definition addNewRowToArcToHLDPipelines ::
  "DeploymentTable \<Rightarrow> string \<Rightarrow> string \<Rightarrow> string \<Rightarrow> string \<Rightarrow> string \<Rightarrow>
   string option \<Rightarrow> string option \<Rightarrow> TableService \<Rightarrow> (error + Row) \<times> TableService" where
  "addNewRowToArcToHLDPipelines tableInfo u pipelineId imageTag' hldCommitId' env'
       pr' repository s =
     (let newEntry = \<lparr>PartitionKey = partitionKey tableInfo, RowKey = getRowKey u,
                   commitId = [], imageTag = toLowerCase imageTag', p1 = [],
                   service = [], sourceRepo = None,
                   p2 = Some (toLowerCase pipelineId),
                   hldCommitId = Some (toLowerCase hldCommitId'),
                   env = Some (toLowerCase env'),
                   pr = lowerIfTruthy pr', hldRepo = lowerIfTruthy repository,
                   p3 = None, manifestCommitId = None, manifestRepo = None\<rparr>
      in returning newEntry (insertToTable tableInfo newEntry s))"

definition updateACRToHLDPipeline ::
  "DeploymentTable \<Rightarrow> string \<Rightarrow> string \<Rightarrow> string \<Rightarrow> string \<Rightarrow> string \<Rightarrow>
   string option \<Rightarrow> string option \<Rightarrow> TableService \<Rightarrow> (error + Row) \<times> TableService" where
  "updateACRToHLDPipeline tableInfo u pipelineId imageTag' hldCommitId' env' pr' repository s =
     (case findMatchingDeployments tableInfo ''imageTag'' imageTag' s of
        (entries, s1) \<Rightarrow>
          if entries \<noteq> [] then
            (case updateMatchingArcToHLDPipelineEntry entries tableInfo pipelineId imageTag'
                    hldCommitId' env' pr' repository s1 of
               (Inl e, s2) \<Rightarrow> (Inl e, s2)
             | (Inr (Some found), s2) \<Rightarrow> (Inr found, s2)
             | (Inr None, s2) \<Rightarrow>
                 updateLastRowOfArcToHLDPipelines entries tableInfo u pipelineId imageTag'
                   hldCommitId' env' pr' repository s2)
          else addNewRowToArcToHLDPipelines tableInfo u pipelineId imageTag' hldCommitId' env'
                 pr' repository s1)"

section \<open>Stage 3: HLD to manifest\<close>

definition matchesHLDtoManifest :: "string \<Rightarrow> string option \<Rightarrow> Row \<Rightarrow> bool" where
  "matchesHLDtoManifest pipelineId manifestCommitId' entry =
     ((case p3 entry of Some v \<Rightarrow> v = pipelineId | None \<Rightarrow> True) \<and>
      (case manifestCommitId entry of Some v \<Rightarrow> Some v = manifestCommitId' | None \<Rightarrow> True))"

definition updateHLDtoManifestEntry ::
  "Row list \<Rightarrow> DeploymentTable \<Rightarrow> string \<Rightarrow> string \<Rightarrow> string option \<Rightarrow> string option \<Rightarrow>
   string option \<Rightarrow> TableService \<Rightarrow> (error + Row option) \<times> TableService" where
  "updateHLDtoManifestEntry entries tableInfo hldCommitId' pipelineId manifestCommitId' pr'
       repository s =
     (case find (matchesHLDtoManifest pipelineId manifestCommitId') entries of
        Some found \<Rightarrow>
          (let entry = \<lparr>PartitionKey = PartitionKey found, RowKey = RowKey found,
                   commitId = commitId found, imageTag = imageTag found, p1 = p1 found,
                   service = service found, sourceRepo = sourceRepo found,
                   p2 = p2 found,
                   hldCommitId = Some hldCommitId',
                   env = env found,
                   pr = (if truthy pr' then pr' else None), hldRepo = hldRepo found,
                   p3 = Some (toLowerCase pipelineId),
                   manifestCommitId = lowerIfTruthy manifestCommitId',
                   manifestRepo = lowerIfTruthy repository\<rparr>
           in returning (Some entry) (updateEntryInTable tableInfo entry s))
      | None \<Rightarrow> (Inr None, s))"

definition updateLastHLDtoManifestEntry ::
  "Row list \<Rightarrow> DeploymentTable \<Rightarrow> string \<Rightarrow> string \<Rightarrow> string \<Rightarrow> string option \<Rightarrow>
   string option \<Rightarrow> string option \<Rightarrow> TableService \<Rightarrow> (error + Row) \<times> TableService" where
  "updateLastHLDtoManifestEntry entries tableInfo u hldCommitId' pipelineId manifestCommitId'
       pr' repository s =
     (let lastEntry = last entries;
          newEntry = \<lparr>PartitionKey = PartitionKey lastEntry, RowKey = getRowKey u,
                   commitId = commitId lastEntry, imageTag = imageTag lastEntry,
                   p1 = p1 lastEntry, service = service lastEntry,
                   sourceRepo = sourceRepo lastEntry,
                   p2 = p2 lastEntry,
                   hldCommitId = Some (toLowerCase hldCommitId'),
                   env = env lastEntry,
                   pr = lowerIfTruthy pr', hldRepo = hldRepo lastEntry,
                   p3 = Some (toLowerCase pipelineId),
                   manifestCommitId = lowerIfTruthy manifestCommitId',
                   manifestRepo = lowerIfTruthy repository\<rparr>
      in returning newEntry (insertToTable tableInfo newEntry s))"

definition addNewRowToHLDtoManifestPipeline ::
  "DeploymentTable \<Rightarrow> string \<Rightarrow> string \<Rightarrow> string \<Rightarrow> string option \<Rightarrow>
   string option \<Rightarrow> string option \<Rightarrow> TableService \<Rightarrow> (error + Row) \<times> TableService" where
  "addNewRowToHLDtoManifestPipeline tableInfo u hldCommitId' pipelineId manifestCommitId'
       pr' repository s =
     (let newEntry = \<lparr>PartitionKey = partitionKey tableInfo, RowKey = getRowKey u,
                   commitId = [], imageTag = [], p1 = [], service = [],
                   sourceRepo = None,
                   p2 = Some [],
                   hldCommitId = Some (toLowerCase hldCommitId'),
                   env = Some [],
                   pr = lowerIfTruthy pr', hldRepo = None,
                   p3 = Some (toLowerCase pipelineId),
                   manifestCommitId = lowerIfTruthy manifestCommitId',
                   manifestRepo = lowerIfTruthy repository\<rparr>
      in returning newEntry (insertToTable tableInfo newEntry s))"

definition updateHLDtoManifestHelper ::
  "Row list \<Rightarrow> DeploymentTable \<Rightarrow> string \<Rightarrow> string \<Rightarrow> string \<Rightarrow> string option \<Rightarrow>
   string option \<Rightarrow> string option \<Rightarrow> TableService \<Rightarrow> (error + Row) \<times> TableService" where
  "updateHLDtoManifestHelper entries tableInfo u hldCommitId' pipelineId manifestCommitId'
       pr' repository s =
     (if entries \<noteq> [] then
        (case updateHLDtoManifestEntry entries tableInfo hldCommitId' pipelineId
                manifestCommitId' pr' repository s of
           (Inl e, s2) \<Rightarrow> (Inl e, s2)
         | (Inr (Some updated), s2) \<Rightarrow> (Inr updated, s2)
         | (Inr None, s2) \<Rightarrow>
             updateLastHLDtoManifestEntry entries tableInfo u hldCommitId' pipelineId
               manifestCommitId' pr' repository s2)
      else addNewRowToHLDtoManifestPipeline tableInfo u hldCommitId' pipelineId
             manifestCommitId' pr' repository s)"

definition updateHLDToManifestPipeline ::
  "DeploymentTable \<Rightarrow> string \<Rightarrow> string \<Rightarrow> string \<Rightarrow> string option \<Rightarrow>
   string option \<Rightarrow> string option \<Rightarrow> TableService \<Rightarrow> (error + Row) \<times> TableService" where
  "updateHLDToManifestPipeline tableInfo u hldCommitId' pipelineId manifestCommitId' pr'
       repository s =
     (case findMatchingDeployments tableInfo ''hldCommitId'' hldCommitId' s of
        (entries, s1) \<Rightarrow>
          if entries = [] \<and> truthy pr' then
            (case findMatchingDeployments tableInfo ''pr'' (the pr') s1 of
               (entries2, s2) \<Rightarrow>
                 updateHLDtoManifestHelper entries2 tableInfo u hldCommitId' pipelineId
                   manifestCommitId' pr' repository s2)
          else updateHLDtoManifestHelper entries tableInfo u hldCommitId' pipelineId
                 manifestCommitId' pr' repository s1)"

section \<open>Manifest commit\<close>

definition updateManifestCommitId ::
  "DeploymentTable \<Rightarrow> string \<Rightarrow> string \<Rightarrow> string option \<Rightarrow> TableService \<Rightarrow>
   (error + Row) \<times> TableService" where
  "updateManifestCommitId tableInfo pipelineId manifestCommitId' repository s =
     (case findMatchingDeployments tableInfo ''p3'' pipelineId s of
        (entries, s1) \<Rightarrow>
          (case entries of
             entry0 # rest \<Rightarrow>
               (let entry1 = entry0\<lparr>manifestCommitId := Some manifestCommitId'\<rparr>;
                    entry2 = (if truthy repository
                              then entry1\<lparr>manifestRepo := map_option toLowerCase repository\<rparr>
                              else entry1)
                in returning entry2 (updateEntryInTable tableInfo entry2 s1))
           | [] \<Rightarrow> (Inl NoCorrelationFoundError, s1)))"

section \<open>Well-formed stores and example data\<close>

text \<open>
  The table identifies a row by its PartitionKey and RowKey: no two rows of a store
  share both.
\<close>

definition keyOf :: "Row \<Rightarrow> string \<times> string" where
  "keyOf r = (PartitionKey r, RowKey r)"

definition wellFormed :: "TableService \<Rightarrow> bool" where
  "wellFormed s = distinct (map keyOf (entities s))"

text \<open>No row of the store has the PartitionKey \<open>pk\<close> and the RowKey \<open>rk\<close>.\<close>

definition freshKey :: "string \<Rightarrow> string \<Rightarrow> TableService \<Rightarrow> bool" where
  "freshKey pk rk s = (\<not> list_ex (\<lambda>r. PartitionKey r = pk \<and> RowKey r = rk) (entities s))"

definition exampleTable :: DeploymentTable where
  "exampleTable = \<lparr>accountName = ''account'', accountKey = ''secret'',
                    tableName = ''deployments'', partitionKey = ''spk''\<rparr>"

definition exampleUuid :: string where
  "exampleUuid = ''9b1deb4d-3b7d-4bad-9bdf-2b0d7b3dcb6d''"

definition stage1Row :: Row where
  "stage1Row = \<lparr>PartitionKey = ''spk'', RowKey = ''0f8fad5bd9cb'',
                 commitId = ''abc123'', imageTag = ''hello-spk-master-1234'', p1 = ''100'',
                 service = ''svcA'', sourceRepo = None,
                 p2 = None, hldCommitId = None, env = None, pr = None, hldRepo = None,
                 p3 = None, manifestCommitId = None, manifestRepo = None\<rparr>"

definition stage2Row :: Row where
  "stage2Row = stage1Row\<lparr>p2 := Some ''200'', hldCommitId := Some ''def456'',
                          env := Some ''qa'', pr := Some ''42''\<rparr>"

definition stage3Row :: Row where
  "stage3Row = stage2Row\<lparr>p3 := Some ''300''\<rparr>"

definition storeOf :: "Row list \<Rightarrow> TableService" where
  "storeOf rows = \<lparr>entities = rows, calls = []\<rparr>"

section \<open>Lower-casing\<close>

lemma isUpperChar_lowerChar: "\<not> isUpperChar (lowerChar c)"
  by (auto simp: lowerChar_def isUpperChar_def)

lemma isLowerCase_toLowerCase: "isLowerCase (toLowerCase s)"
  by (induction s) (simp_all add: isLowerCase_def toLowerCase_def isUpperChar_lowerChar)

section \<open>The RowKey of a canonical UUID\<close>

lemma replace_dash: "replace ''-'' [] s = remove1 (CHR ''-'') s"
  by (induction s) auto

lemma remove1_at:
  "list_all (\<lambda>c. c \<noteq> x) (take n xs) \<Longrightarrow> n < length xs \<Longrightarrow> xs ! n = x \<Longrightarrow>
   remove1 x xs = take n xs @ drop (Suc n) xs"
proof (induction xs arbitrary: n)
  case Nil
  then show ?case by simp
next
  case (Cons a xs)
  then show ?case by (cases n) auto
qed

lemma isHexChar_not_dash: "isHexChar c \<Longrightarrow> c \<noteq> CHR ''-''"
  by (auto simp: isHexChar_def)

lemma list_all_hex_not_dash: "list_all isHexChar xs \<Longrightarrow> list_all (\<lambda>c. c \<noteq> CHR ''-'') xs"
  by (induction xs) (auto dest: isHexChar_not_dash)

lemma replace_canonical:
  assumes "isCanonicalUuid u"
  shows "replace ''-'' [] u = take 8 u @ drop 9 u"
proof -
  from assms have a: "list_all isHexChar (take 8 u)" and b: "u ! 8 = CHR ''-''"
    and c: "length u = 36"
    by (simp_all add: isCanonicalUuid_def)
  from a have "list_all (\<lambda>c. c \<noteq> CHR ''-'') (take 8 u)" by (rule list_all_hex_not_dash)
  moreover from c have "8 < length u" by simp
  ultimately have "remove1 (CHR ''-'') u = take 8 u @ drop (Suc 8) u"
    using b by (rule remove1_at)
  then show ?thesis by (simp add: replace_dash)
qed

lemma exampleUuid_canonical: "isCanonicalUuid exampleUuid"
  by code_simp

lemma getRowKey_exampleUuid: "getRowKey exampleUuid = ''9b1deb4d3b7d''"
  by (simp add: getRowKey_def exampleUuid_def substring_def)

text \<open>
  Claim C10. For every canonical UUID (36 characters, dashes at the indices 8, 13, 18 and
  23, hexadecimal digits elsewhere) \<open>getRowKey\<close> returns exactly 12 characters, all of
  them hexadecimal digits and none a dash: the first 8 digits followed by the 4 digits of
  the second group. Only the first dash is removed: the string that is truncated still
  has 35 characters and holds a dash.
\<close>

theorem getRowKey_canonical_uuid:
  assumes "isCanonicalUuid u"
  shows "length (getRowKey u) = 12 \<and> list_all isHexChar (getRowKey u) \<and>
         CHR ''-'' \<notin> set (getRowKey u) \<and>
         getRowKey u = take 8 u @ take 4 (drop 9 u) \<and>
         length (replace ''-'' [] u) = 35 \<and> CHR ''-'' \<in> set (replace ''-'' [] u)"
proof -
  from assms have len: "length u = 36" and a: "list_all isHexChar (take 8 u)"
    and b: "list_all isHexChar (take 4 (drop 9 u))" and d: "u ! 13 = CHR ''-''"
    by (simp_all add: isCanonicalUuid_def)
  have r: "replace ''-'' [] u = take 8 u @ drop 9 u"
    using assms by (rule replace_canonical)
  have k: "getRowKey u = take 8 u @ take 4 (drop 9 u)"
    using len by (simp add: getRowKey_def substring_def r)
  have h: "list_all isHexChar (getRowKey u)"
    using a b by (simp add: k)
  have nd: "CHR ''-'' \<notin> set (getRowKey u)"
    using list_all_hex_not_dash[OF h] by (auto simp: list_all_iff)
  have l4: "4 < length (drop 9 u)" using len by simp
  have "drop 9 u ! 4 = CHR ''-''" using len d by simp
  then have "CHR ''-'' \<in> set (drop 9 u)"
    using nth_mem[OF l4] by simp
  then have "CHR ''-'' \<in> set (replace ''-'' [] u)" by (simp add: r)
  with len k h nd r show ?thesis by simp
qed

theorem getRowKey_canonical_uuid_witness:
  "isCanonicalUuid exampleUuid \<and> getRowKey exampleUuid = ''9b1deb4d3b7d'' \<and>
   length (getRowKey exampleUuid) = 12 \<and> list_all isHexChar (getRowKey exampleUuid) \<and>
   CHR ''-'' \<notin> set (getRowKey exampleUuid)"
  using getRowKey_canonical_uuid[OF exampleUuid_canonical] exampleUuid_canonical
    getRowKey_exampleUuid by blast

section \<open>Facts about the table service\<close>

lemma returning_Inr [simp]: "returning x (Inr v, s) = (Inr x, s)"
  by (simp add: returning_def)

lemma returning_Inl [simp]: "returning x (Inl e, s) = (Inl e, s)"
  by (simp add: returning_def)

lemma sameKey_keyOf: "sameKey a b = (keyOf a = keyOf b)"
  by (auto simp: sameKey_def keyOf_def)

lemma replaceRow_update:
  "replaceRow e xs = Some ys \<Longrightarrow> \<exists>i<length xs. sameKey (xs ! i) e \<and> ys = xs[i := e]"
proof (induction xs arbitrary: ys)
  case Nil
  then show ?case by simp
next
  case (Cons r rs)
  show ?case
  proof (cases "sameKey r e")
    case True
    with Cons.prems have "ys = (r # rs)[0 := e]" by simp
    with True show ?thesis by (intro exI[of _ 0]) simp
  next
    case False
    with Cons.prems obtain ys' where 1: "replaceRow e rs = Some ys'" and 2: "ys = r # ys'"
      by auto
    from Cons.IH[OF 1] obtain i where "i < length rs" "sameKey (rs ! i) e" "ys' = rs[i := e]"
      by blast
    with 2 show ?thesis by (intro exI[of _ "Suc i"]) simp
  qed
qed

lemma replaceRow_at:
  "distinct (map keyOf xs) \<Longrightarrow> i < length xs \<Longrightarrow> sameKey (xs ! i) e \<Longrightarrow>
   replaceRow e xs = Some (xs[i := e])"
proof (induction xs arbitrary: i)
  case Nil
  then show ?case by simp
next
  case (Cons r rs)
  show ?case
  proof (cases i)
    case 0
    with Cons.prems show ?thesis by simp
  next
    case (Suc j)
    with Cons.prems have j: "j < length rs" and sk: "sameKey (rs ! j) e" by simp_all
    from Cons.prems have d: "distinct (map keyOf rs)" and n: "keyOf r \<notin> keyOf ` set rs"
      by simp_all
    from j have "keyOf (rs ! j) \<in> keyOf ` set rs" by simp
    with n sk have "\<not> sameKey r e" by (auto simp: sameKey_keyOf)
    with Cons.IH[OF d j sk] Suc show ?thesis by simp
  qed
qed

lemma replaceRow_head:
  "replaceRow e xs = Some ys \<Longrightarrow> P e \<Longrightarrow> filter P xs = x # rest \<Longrightarrow> sameKey x e \<Longrightarrow>
   \<exists>rest'. filter P ys = e # rest'"
proof (induction xs arbitrary: ys)
  case Nil
  then show ?case by simp
next
  case (Cons r rs)
  show ?case
  proof (cases "sameKey r e")
    case True
    with Cons.prems(1) have "ys = e # rs" by simp
    with Cons.prems(2) show ?thesis by simp
  next
    case False
    with Cons.prems obtain ys' where 1: "replaceRow e rs = Some ys'" and 2: "ys = r # ys'"
      by auto
    from False Cons.prems(3,4) have np: "\<not> P r" by (auto split: if_splits)
    with Cons.prems(3) have "filter P rs = x # rest" by simp
    from Cons.IH[OF 1 Cons.prems(2) this Cons.prems(4)] np 2 show ?thesis by simp
  qed
qed

lemma replaceRow_again: "replaceRow e xs = Some ys \<Longrightarrow> replaceRow e ys = Some ys"
proof (induction xs arbitrary: ys)
  case Nil
  then show ?case by simp
next
  case (Cons r rs)
  then show ?case by (cases "sameKey r e") (auto simp: sameKey_def)
qed

lemma replaceRow_member:
  "x \<in> set xs \<Longrightarrow> sameKey x e \<Longrightarrow> \<exists>ys. replaceRow e xs = Some ys"
  by (induction xs) auto

lemma find_member: "find P xs = Some x \<Longrightarrow> x \<in> set xs \<and> P x"
  by (induction xs) (auto split: if_splits)

section \<open>Queries\<close>

lemma query_entities [simp]:
  "snd (findMatchingDeployments tableInfo n v s) =
     s\<lparr>calls := calls s @ [QueryEntities (partitionKey tableInfo) n v]\<rparr>"
  by (simp add: findMatchingDeployments_def queryEntities_def)

lemma query_rows:
  "fst (findMatchingDeployments tableInfo n v s) =
     filter (\<lambda>r. PartitionKey r = partitionKey tableInfo \<and> property n r = Some v) (entities s)"
  by (simp add: findMatchingDeployments_def queryEntities_def)

lemma query_rows_calls [simp]:
  "fst (findMatchingDeployments tableInfo n v (s\<lparr>calls := c\<rparr>)) =
     fst (findMatchingDeployments tableInfo n v s)"
  by (simp add: query_rows)

lemma query_split:
  "findMatchingDeployments tableInfo n v s =
     (fst (findMatchingDeployments tableInfo n v s),
      s\<lparr>calls := calls s @ [QueryEntities (partitionKey tableInfo) n v]\<rparr>)"
  by (simp add: findMatchingDeployments_def queryEntities_def)

lemma query_member:
  "x \<in> set (fst (findMatchingDeployments tableInfo n v s)) \<Longrightarrow>
   x \<in> set (entities s) \<and> PartitionKey x = partitionKey tableInfo \<and> property n x = Some v"
  by (simp add: query_rows)

lemma list_ex_sameKey:
  "list_ex (sameKey e) (entities s) = (\<not> freshKey (PartitionKey e) (RowKey e) s)"
  by (simp add: freshKey_def sameKey_def list_ex_iff) metis

section \<open>Stage 1\<close>

text \<open>
  Claim C8. The stage-1 resolver makes exactly one call to the table service, an insert,
  and no query. The inserted row has the \<open>p1\<close>, \<open>imageTag\<close>, \<open>service\<close> and
  \<open>commitId\<close> of the inputs, unchanged, the RowKey made from the new UUID and the
  PartitionKey of the table; when that key is not yet in the store, the call returns the
  row and the store has this one row more.
\<close>

theorem stage1_inserts_verbatim:
  "\<exists>r. p1 r = pipelineId \<and> imageTag r = imageTag' \<and> service r = serviceName \<and>
        commitId r = commitId' \<and> RowKey r = getRowKey u \<and>
        PartitionKey r = partitionKey tableInfo \<and>
        calls (snd (addSrcToACRPipeline tableInfo u pipelineId imageTag' serviceName commitId'
                      repository s)) = calls s @ [InsertEntity r] \<and>
        (freshKey (partitionKey tableInfo) (getRowKey u) s \<longrightarrow>
           addSrcToACRPipeline tableInfo u pipelineId imageTag' serviceName commitId' repository s
             = (Inr r, \<lparr>entities = entities s @ [r], calls = calls s @ [InsertEntity r]\<rparr>))"
  by (simp add: addSrcToACRPipeline_def insertToTable_def insertEntity_def list_ex_sameKey
      Let_def)

theorem stage1_inserts_verbatim_witness:
  "freshKey ''spk'' (getRowKey exampleUuid) (storeOf []) \<and>
   (\<exists>r. addSrcToACRPipeline exampleTable exampleUuid ''100'' ''Hello-SPK-Master-1234'' ''SvcA''
           ''ABC123'' None (storeOf []) = (Inr r, \<lparr>entities = [r], calls = [InsertEntity r]\<rparr>) \<and>
        p1 r = ''100'' \<and> imageTag r = ''Hello-SPK-Master-1234'' \<and> service r = ''SvcA'' \<and>
        commitId r = ''ABC123'' \<and> RowKey r = ''9b1deb4d3b7d'')"
proof -
  have h: "freshKey (partitionKey exampleTable) (getRowKey exampleUuid) (storeOf [])"
    by code_simp
  have v: "partitionKey exampleTable = ''spk''" "entities (storeOf []) = []"
    "calls (storeOf []) = []" by code_simp+
  from stage1_inserts_verbatim[where pipelineId = "''100''"
      and imageTag' = "''Hello-SPK-Master-1234''" and serviceName = "''SvcA''"
      and commitId' = "''ABC123''" and u = exampleUuid and tableInfo = exampleTable
      and s = "storeOf []" and repository = None]
  obtain r where
    "p1 r = ''100''" "imageTag r = ''Hello-SPK-Master-1234''" "service r = ''SvcA''"
    "commitId r = ''ABC123''" "RowKey r = getRowKey exampleUuid"
    "freshKey (partitionKey exampleTable) (getRowKey exampleUuid) (storeOf []) \<longrightarrow>
     addSrcToACRPipeline exampleTable exampleUuid ''100'' ''Hello-SPK-Master-1234'' ''SvcA''
           ''ABC123'' None (storeOf []) =
       (Inr r, \<lparr>entities = entities (storeOf []) @ [r],
                 calls = calls (storeOf []) @ [InsertEntity r]\<rparr>)"
    by blast
  with h show ?thesis unfolding v getRowKey_exampleUuid by (intro conjI exI[of _ r]) simp_all
qed

section \<open>Stage 2\<close>

text \<open>
  Claim C2. When the query by \<open>imageTag\<close> returns candidates and \<open>found\<close> is the first
  of them that passes the wildcard test on \<open>p2\<close>, \<open>hldCommitId\<close> and \<open>env\<close>, the
  stage-2 resolver replaces that row at its place in a well-formed store: the written row
  keeps the RowKey, the PartitionKey, \<open>commitId\<close>, \<open>imageTag\<close>, \<open>p1\<close>, \<open>service\<close>
  and \<open>sourceRepo\<close> of the candidate, its \<open>p2\<close>, \<open>hldCommitId\<close> and \<open>env\<close> are the
  lower-cased inputs, and the store has as many rows as before.
\<close>

theorem stage2_exact_match_mutates_in_place:
  assumes wf: "wellFormed s"
    and found: "find (matchesArcToHLD pipelineId hldCommitId' env')
                  (fst (findMatchingDeployments tableInfo ''imageTag'' imageTag' s)) = Some found"
  shows "\<exists>r s' i.
           updateACRToHLDPipeline tableInfo u pipelineId imageTag' hldCommitId' env' pr'
             repository s = (Inr r, s') \<and>
           PartitionKey r = PartitionKey found \<and> RowKey r = RowKey found \<and>
           commitId r = commitId found \<and> imageTag r = imageTag found \<and> p1 r = p1 found \<and>
           service r = service found \<and> sourceRepo r = sourceRepo found \<and>
           p2 r = Some (toLowerCase pipelineId) \<and>
           hldCommitId r = Some (toLowerCase hldCommitId') \<and>
           env r = Some (toLowerCase env') \<and>
           i < length (entities s) \<and> entities s ! i = found \<and>
           entities s' = (entities s)[i := r] \<and>
           length (entities s') = length (entities s) \<and>
           calls s' = calls s @ [QueryEntities (partitionKey tableInfo) ''imageTag'' imageTag',
                                 ReplaceEntity r]"
proof -
  define entries where "entries = fst (findMatchingDeployments tableInfo ''imageTag'' imageTag' s)"
  define r where "r = \<lparr>PartitionKey = PartitionKey found, RowKey = RowKey found,
                   commitId = commitId found, imageTag = imageTag found, p1 = p1 found,
                   service = service found, sourceRepo = sourceRepo found,
                   p2 = Some (toLowerCase pipelineId),
                   hldCommitId = Some (toLowerCase hldCommitId'),
                   env = Some (toLowerCase env'),
                   pr = lowerIfTruthy pr', hldRepo = lowerIfTruthy repository,
                   p3 = None, manifestCommitId = None, manifestRepo = None\<rparr>"
  from found have f: "find (matchesArcToHLD pipelineId hldCommitId' env') entries = Some found"
    by (simp add: entries_def)
  then have "found \<in> set entries" by (simp add: find_member)
  then have ne: "entries \<noteq> []" and mem: "found \<in> set (entities s)"
    using query_member[of found tableInfo "''imageTag''" imageTag' s] by (auto simp: entries_def)
  from mem obtain i where i: "i < length (entities s)" "entities s ! i = found"
    by (auto simp: in_set_conv_nth)
  have sk: "sameKey (entities s ! i) r" by (simp add: i r_def sameKey_def)
  from wf have "distinct (map keyOf (entities s))" by (simp add: wellFormed_def)
  from replaceRow_at[OF this i(1) sk]
  have rep: "replaceRow r (entities s) = Some ((entities s)[i := r])" .
  have mut: "updateMatchingArcToHLDPipelineEntry entries tableInfo pipelineId imageTag'
       hldCommitId' env' pr' repository
       (s\<lparr>calls := calls s @ [QueryEntities (partitionKey tableInfo) ''imageTag'' imageTag']\<rparr>)
     = (Inr (Some r), \<lparr>entities = (entities s)[i := r],
          calls = calls s @ [QueryEntities (partitionKey tableInfo) ''imageTag'' imageTag',
                             ReplaceEntity r]\<rparr>)"
    by (simp add: updateMatchingArcToHLDPipelineEntry_def f r_def[symmetric]
        updateEntryInTable_def replaceEntity_def rep)
  have res: "updateACRToHLDPipeline tableInfo u pipelineId imageTag' hldCommitId' env' pr'
       repository s
     = (Inr r, \<lparr>entities = (entities s)[i := r],
          calls = calls s @ [QueryEntities (partitionKey tableInfo) ''imageTag'' imageTag',
                             ReplaceEntity r]\<rparr>)"
    unfolding updateACRToHLDPipeline_def
    by (subst query_split) (simp add: entries_def[symmetric] ne mut)
  show ?thesis
    by (intro exI[of _ r] exI[of _ "\<lparr>entities = (entities s)[i := r],
          calls = calls s @ [QueryEntities (partitionKey tableInfo) ''imageTag'' imageTag',
                             ReplaceEntity r]\<rparr>"] exI[of _ i])
       (simp add: res i, simp add: r_def)
qed

theorem stage2_exact_match_mutates_in_place_witness:
  "wellFormed (storeOf [stage1Row]) \<and>
   find (matchesArcToHLD ''200'' ''DEF456'' ''QA'')
     (fst (findMatchingDeployments exampleTable ''imageTag'' ''hello-spk-master-1234''
            (storeOf [stage1Row]))) = Some stage1Row \<and>
   (\<exists>r s'. updateACRToHLDPipeline exampleTable exampleUuid ''200'' ''hello-spk-master-1234''
              ''DEF456'' ''QA'' None None (storeOf [stage1Row]) = (Inr r, s') \<and>
           RowKey r = ''0f8fad5bd9cb'' \<and> commitId r = ''abc123'' \<and>
           env r = Some ''qa'' \<and> hldCommitId r = Some ''def456'' \<and> p2 r = Some ''200'' \<and>
           entities s' = [r])"
proof -
  have h1: "wellFormed (storeOf [stage1Row])" by code_simp
  have h2: "find (matchesArcToHLD ''200'' ''DEF456'' ''QA'')
     (fst (findMatchingDeployments exampleTable ''imageTag'' ''hello-spk-master-1234''
            (storeOf [stage1Row]))) = Some stage1Row" by code_simp
  have l: "toLowerCase ''QA'' = ''qa''" "toLowerCase ''DEF456'' = ''def456''"
    "toLowerCase ''200'' = ''200''" by code_simp+
  have v: "RowKey stage1Row = ''0f8fad5bd9cb''" "commitId stage1Row = ''abc123''"
    "entities (storeOf [stage1Row]) = [stage1Row]" by code_simp+
  from stage2_exact_match_mutates_in_place[OF h1 h2, where u = exampleUuid and pr' = None
      and repository = None]
  obtain r s' i where
    "updateACRToHLDPipeline exampleTable exampleUuid ''200'' ''hello-spk-master-1234''
              ''DEF456'' ''QA'' None None (storeOf [stage1Row]) = (Inr r, s')"
    "RowKey r = ''0f8fad5bd9cb''" "commitId r = ''abc123''"
    "env r = Some ''qa''" "hldCommitId r = Some ''def456''" "p2 r = Some ''200''"
    "i < length [stage1Row]" "entities s' = [stage1Row][i := r]"
    unfolding l v by blast
  moreover from this have "entities s' = [r]" by simp
  ultimately show ?thesis using h1 h2 by blast
qed

text \<open>
  Claim C3. When the query by \<open>imageTag\<close> returns candidates and none passes the wildcard
  test, the stage-2 resolver inserts a new row under the RowKey made from the new UUID
  (a key not yet in the store). Its \<open>commitId\<close>, \<open>imageTag\<close>, \<open>p1\<close>, \<open>service\<close> and
  \<open>sourceRepo\<close> are those of the last candidate, its \<open>env\<close>, \<open>hldCommitId\<close> and
  \<open>p2\<close> are the lower-cased inputs. The rows of the store before the call, the last
  candidate among them, are all still there, unchanged.
\<close>

theorem stage2_no_exact_match_clones_last:
  assumes entries: "entries = fst (findMatchingDeployments tableInfo ''imageTag'' imageTag' s)"
    and ne: "entries \<noteq> []"
    and nomatch: "find (matchesArcToHLD pipelineId hldCommitId' env') entries = None"
    and fresh: "freshKey (partitionKey tableInfo) (getRowKey u) s"
  shows "\<exists>r. updateACRToHLDPipeline tableInfo u pipelineId imageTag' hldCommitId' env' pr'
               repository s
             = (Inr r, \<lparr>entities = entities s @ [r],
                  calls = calls s @ [QueryEntities (partitionKey tableInfo) ''imageTag'' imageTag',
                                     InsertEntity r]\<rparr>) \<and>
           RowKey r = getRowKey u \<and> PartitionKey r = PartitionKey (last entries) \<and>
           commitId r = commitId (last entries) \<and> imageTag r = imageTag (last entries) \<and>
           p1 r = p1 (last entries) \<and> service r = service (last entries) \<and>
           sourceRepo r = sourceRepo (last entries) \<and>
           env r = Some (toLowerCase env') \<and>
           hldCommitId r = Some (toLowerCase hldCommitId') \<and>
           p2 r = Some (toLowerCase pipelineId) \<and>
           r \<notin> set (entities s) \<and> last entries \<in> set (entities s)"
proof -
  define r where "r = \<lparr>PartitionKey = PartitionKey (last entries), RowKey = getRowKey u,
                   commitId = commitId (last entries), imageTag = imageTag (last entries),
                   p1 = p1 (last entries), service = service (last entries),
                   sourceRepo = sourceRepo (last entries),
                   p2 = Some (toLowerCase pipelineId),
                   hldCommitId = Some (toLowerCase hldCommitId'),
                   env = Some (toLowerCase env'),
                   pr = lowerIfTruthy pr', hldRepo = lowerIfTruthy repository,
                   p3 = None, manifestCommitId = None, manifestRepo = None\<rparr>"
  from ne have "last entries \<in> set entries" by simp
  then have lastmem: "last entries \<in> set (entities s)"
    and pk: "PartitionKey (last entries) = partitionKey tableInfo"
    using query_member[of "last entries" tableInfo "''imageTag''" imageTag' s]
    by (simp_all add: entries)
  have key: "PartitionKey r = partitionKey tableInfo" "RowKey r = getRowKey u"
    by (simp_all add: r_def pk)
  from fresh have nex: "\<not> list_ex (sameKey r) (entities s)"
    by (simp add: list_ex_sameKey key)
  then have notin: "r \<notin> set (entities s)"
    by (auto simp: list_ex_iff sameKey_def)
  have mut: "updateMatchingArcToHLDPipelineEntry entries tableInfo pipelineId imageTag'
       hldCommitId' env' pr' repository s1 = (Inr None, s1)" for s1
    by (simp add: updateMatchingArcToHLDPipelineEntry_def nomatch)
  have clone: "updateLastRowOfArcToHLDPipelines entries tableInfo u pipelineId imageTag'
       hldCommitId' env' pr' repository
       (s\<lparr>calls := calls s @ [QueryEntities (partitionKey tableInfo) ''imageTag'' imageTag']\<rparr>)
     = (Inr r, \<lparr>entities = entities s @ [r],
          calls = calls s @ [QueryEntities (partitionKey tableInfo) ''imageTag'' imageTag',
                             InsertEntity r]\<rparr>)"
    using nex
    by (simp add: updateLastRowOfArcToHLDPipelines_def Let_def r_def[symmetric]
        insertToTable_def insertEntity_def)
  have res: "updateACRToHLDPipeline tableInfo u pipelineId imageTag' hldCommitId' env' pr'
               repository s
             = (Inr r, \<lparr>entities = entities s @ [r],
                  calls = calls s @ [QueryEntities (partitionKey tableInfo) ''imageTag'' imageTag',
                                     InsertEntity r]\<rparr>)"
    unfolding updateACRToHLDPipeline_def
    by (subst query_split) (simp add: entries[symmetric] ne mut clone)
  show ?thesis
    by (intro exI[of _ r]) (simp add: res notin lastmem, simp add: r_def)
qed

theorem stage2_no_exact_match_clones_last_witness:
  "[stage2Row] = fst (findMatchingDeployments exampleTable ''imageTag'' ''hello-spk-master-1234''
                       (storeOf [stage2Row])) \<and>
   find (matchesArcToHLD ''201'' ''0A1B2C'' ''Prod'') [stage2Row] = None \<and>
   freshKey ''spk'' (getRowKey exampleUuid) (storeOf [stage2Row]) \<and>
   (\<exists>r. updateACRToHLDPipeline exampleTable exampleUuid ''201'' ''hello-spk-master-1234''
           ''0A1B2C'' ''Prod'' None None (storeOf [stage2Row])
          = (Inr r, \<lparr>entities = [stage2Row, r],
               calls = [QueryEntities ''spk'' ''imageTag'' ''hello-spk-master-1234'',
                        InsertEntity r]\<rparr>) \<and>
        RowKey r = ''9b1deb4d3b7d'' \<and> commitId r = ''abc123'' \<and> p1 r = ''100'' \<and>
        service r = ''svcA'' \<and> sourceRepo r = None \<and>
        env r = Some ''prod'' \<and> hldCommitId r = Some ''0a1b2c'' \<and> p2 r = Some ''201'')"
proof -
  have h1: "[stage2Row] = fst (findMatchingDeployments exampleTable ''imageTag''
                ''hello-spk-master-1234'' (storeOf [stage2Row]))" by code_simp
  have h2: "[stage2Row] \<noteq> []" by simp
  have h3: "find (matchesArcToHLD ''201'' ''0A1B2C'' ''Prod'') [stage2Row] = None" by code_simp
  have h4: "freshKey (partitionKey exampleTable) (getRowKey exampleUuid) (storeOf [stage2Row])"
    by code_simp
  have l: "toLowerCase ''Prod'' = ''prod''" "toLowerCase ''0A1B2C'' = ''0a1b2c''"
    "toLowerCase ''201'' = ''201''" by code_simp+
  have v: "partitionKey exampleTable = ''spk''" "entities (storeOf [stage2Row]) = [stage2Row]"
    "calls (storeOf [stage2Row]) = []" "commitId stage2Row = ''abc123''" "p1 stage2Row = ''100''"
    "service stage2Row = ''svcA''" "sourceRepo stage2Row = None" by code_simp+
  from stage2_no_exact_match_clones_last[OF h1 h2 h3 h4, where pr' = None and repository = None]
  obtain r where
    "updateACRToHLDPipeline exampleTable exampleUuid ''201'' ''hello-spk-master-1234''
           ''0A1B2C'' ''Prod'' None None (storeOf [stage2Row])
          = (Inr r, \<lparr>entities = [stage2Row, r],
               calls = [QueryEntities ''spk'' ''imageTag'' ''hello-spk-master-1234'',
                        InsertEntity r]\<rparr>)"
    "RowKey r = ''9b1deb4d3b7d''" "commitId r = ''abc123''" "p1 r = ''100''"
    "service r = ''svcA''" "sourceRepo r = None"
    "env r = Some ''prod''" "hldCommitId r = Some ''0a1b2c''" "p2 r = Some ''201''"
    by (auto simp: l v getRowKey_exampleUuid)
  with h1 h3 h4 show ?thesis unfolding v by blast
qed

text \<open>
  Claim C4. When the query by \<open>imageTag\<close> returns nothing, the stage-2 resolver inserts
  a new row under the RowKey made from the new UUID (a key not yet in the store), with
  empty \<open>commitId\<close>, \<open>p1\<close> and \<open>service\<close> and with \<open>env\<close> and \<open>hldCommitId\<close> set to
  the lower-cased inputs.
\<close>

theorem stage2_without_candidates_inserts_blank:
  assumes none: "fst (findMatchingDeployments tableInfo ''imageTag'' imageTag' s) = []"
    and fresh: "freshKey (partitionKey tableInfo) (getRowKey u) s"
  shows "\<exists>r. updateACRToHLDPipeline tableInfo u pipelineId imageTag' hldCommitId' env' pr'
               repository s
             = (Inr r, \<lparr>entities = entities s @ [r],
                  calls = calls s @ [QueryEntities (partitionKey tableInfo) ''imageTag'' imageTag',
                                     InsertEntity r]\<rparr>) \<and>
           RowKey r = getRowKey u \<and> PartitionKey r = partitionKey tableInfo \<and>
           commitId r = [] \<and> p1 r = [] \<and> service r = [] \<and>
           env r = Some (toLowerCase env') \<and>
           hldCommitId r = Some (toLowerCase hldCommitId') \<and>
           isLowerCase (toLowerCase env') \<and> isLowerCase (toLowerCase hldCommitId') \<and>
           r \<notin> set (entities s)"
proof -
  define r where "r = \<lparr>PartitionKey = partitionKey tableInfo, RowKey = getRowKey u,
                   commitId = [], imageTag = toLowerCase imageTag', p1 = [],
                   service = [], sourceRepo = None,
                   p2 = Some (toLowerCase pipelineId),
                   hldCommitId = Some (toLowerCase hldCommitId'),
                   env = Some (toLowerCase env'),
                   pr = lowerIfTruthy pr', hldRepo = lowerIfTruthy repository,
                   p3 = None, manifestCommitId = None, manifestRepo = None\<rparr>"
  have key: "PartitionKey r = partitionKey tableInfo" "RowKey r = getRowKey u"
    by (simp_all add: r_def)
  from fresh have nex: "\<not> list_ex (sameKey r) (entities s)"
    by (simp add: list_ex_sameKey key)
  then have notin: "r \<notin> set (entities s)"
    by (auto simp: list_ex_iff sameKey_def)
  have ins: "addNewRowToArcToHLDPipelines tableInfo u pipelineId imageTag' hldCommitId' env'
       pr' repository
       (s\<lparr>calls := calls s @ [QueryEntities (partitionKey tableInfo) ''imageTag'' imageTag']\<rparr>)
     = (Inr r, \<lparr>entities = entities s @ [r],
          calls = calls s @ [QueryEntities (partitionKey tableInfo) ''imageTag'' imageTag',
                             InsertEntity r]\<rparr>)"
    using nex
    by (simp add: addNewRowToArcToHLDPipelines_def Let_def r_def[symmetric]
        insertToTable_def insertEntity_def)
  have res: "updateACRToHLDPipeline tableInfo u pipelineId imageTag' hldCommitId' env' pr'
               repository s
             = (Inr r, \<lparr>entities = entities s @ [r],
                  calls = calls s @ [QueryEntities (partitionKey tableInfo) ''imageTag'' imageTag',
                                     InsertEntity r]\<rparr>)"
    unfolding updateACRToHLDPipeline_def
    by (subst query_split) (simp add: none ins)
  show ?thesis
    by (intro exI[of _ r]) (simp add: res notin isLowerCase_toLowerCase, simp add: r_def)
qed

theorem stage2_without_candidates_inserts_blank_witness:
  "fst (findMatchingDeployments exampleTable ''imageTag'' ''hello-spk-master-1234''
         (storeOf [])) = [] \<and>
   freshKey ''spk'' (getRowKey exampleUuid) (storeOf []) \<and>
   (\<exists>r. updateACRToHLDPipeline exampleTable exampleUuid ''200'' ''hello-spk-master-1234''
           ''DEF456'' ''QA'' None None (storeOf [])
          = (Inr r, \<lparr>entities = [r],
               calls = [QueryEntities ''spk'' ''imageTag'' ''hello-spk-master-1234'',
                        InsertEntity r]\<rparr>) \<and>
        RowKey r = ''9b1deb4d3b7d'' \<and> commitId r = [] \<and> p1 r = [] \<and> service r = [] \<and>
        env r = Some ''qa'' \<and> hldCommitId r = Some ''def456'' \<and>
        isLowerCase ''qa'' \<and> isLowerCase ''def456'')"
proof -
  have h1: "fst (findMatchingDeployments exampleTable ''imageTag'' ''hello-spk-master-1234''
         (storeOf [])) = []" by code_simp
  have h2: "freshKey (partitionKey exampleTable) (getRowKey exampleUuid) (storeOf [])"
    by code_simp
  have l: "toLowerCase ''QA'' = ''qa''" "toLowerCase ''DEF456'' = ''def456''" by code_simp+
  have v: "partitionKey exampleTable = ''spk''" "entities (storeOf []) = []"
    "calls (storeOf []) = []" by code_simp+
  from stage2_without_candidates_inserts_blank[OF h1 h2, where pipelineId = "''200''"
      and hldCommitId' = "''DEF456''" and env' = "''QA''" and pr' = None and repository = None]
  obtain r where
    "updateACRToHLDPipeline exampleTable exampleUuid ''200'' ''hello-spk-master-1234''
           ''DEF456'' ''QA'' None None (storeOf [])
          = (Inr r, \<lparr>entities = [r],
               calls = [QueryEntities ''spk'' ''imageTag'' ''hello-spk-master-1234'',
                        InsertEntity r]\<rparr>)"
    "RowKey r = ''9b1deb4d3b7d''" "commitId r = []" "p1 r = []" "service r = []"
    "env r = Some ''qa''" "hldCommitId r = Some ''def456''"
    "isLowerCase ''qa''" "isLowerCase ''def456''"
    by (auto simp: l v getRowKey_exampleUuid)
  with h1 h2 show ?thesis unfolding v by blast
qed

lemma insert_ok:
  assumes "returning x (insertToTable tableInfo e s1) = (Inr r, s')"
  shows "r = x \<and> entities s' = entities s1 @ [e] \<and> calls s' = calls s1 @ [InsertEntity e]"
  using assms by (auto simp: insertToTable_def insertEntity_def split: if_splits)

lemma replace_ok:
  assumes "returning x (updateEntryInTable tableInfo e s1) = (Inr r, s')"
  shows "r = x \<and> calls s' = calls s1 @ [ReplaceEntity e] \<and>
         (\<exists>i<length (entities s1). sameKey (entities s1 ! i) e \<and>
            entities s' = (entities s1)[i := e])"
proof (cases "replaceRow e (entities s1)")
  case None
  with assms show ?thesis by (simp add: updateEntryInTable_def replaceEntity_def)
next
  case (Some ys)
  from replaceRow_update[OF Some] obtain i where
    "i < length (entities s1)" "sameKey (entities s1 ! i) e" "ys = (entities s1)[i := e]"
    by blast
  moreover from assms Some have "r = x" "s' = \<lparr>entities = ys, calls = calls s1 @ [ReplaceEntity e]\<rparr>"
    by (auto simp: updateEntryInTable_def replaceEntity_def)
  ultimately show ?thesis by auto
qed

lemma stage2_mutate_ok:
  assumes "updateMatchingArcToHLDPipelineEntry entries tableInfo pipelineId imageTag'
             hldCommitId' env' pr' repository s1 = (Inr (Some r), s')"
  shows "calls s' = calls s1 @ [ReplaceEntity r] \<and>
         (\<exists>i<length (entities s1). sameKey (entities s1 ! i) r \<and>
            entities s' = (entities s1)[i := r])"
proof (cases "find (matchesArcToHLD pipelineId hldCommitId' env') entries")
  case None
  with assms show ?thesis by (simp add: updateMatchingArcToHLDPipelineEntry_def)
next
  case (Some found)
  with assms obtain e where
    "returning (Some e) (updateEntryInTable tableInfo e s1) = (Inr (Some r), s')"
    by (simp add: updateMatchingArcToHLDPipelineEntry_def Let_def)
  from replace_ok[OF this] show ?thesis by auto
qed

lemma stage2_mutate_none:
  assumes "updateMatchingArcToHLDPipelineEntry entries tableInfo pipelineId imageTag'
             hldCommitId' env' pr' repository s1 = (Inr None, s')"
  shows "s' = s1"
proof (cases "find (matchesArcToHLD pipelineId hldCommitId' env') entries")
  case None
  with assms show ?thesis by (simp add: updateMatchingArcToHLDPipelineEntry_def)
next
  case (Some found)
  with assms obtain e where
    "returning (Some e) (updateEntryInTable tableInfo e s1) = (Inr None, s')"
    by (simp add: updateMatchingArcToHLDPipelineEntry_def Let_def)
  from replace_ok[OF this] show ?thesis by simp
qed

lemma stage2_clone_ok:
  assumes "updateLastRowOfArcToHLDPipelines entries tableInfo u pipelineId imageTag'
             hldCommitId' env' pr' repository s1 = (Inr r, s')"
  shows "entities s' = entities s1 @ [r] \<and> calls s' = calls s1 @ [InsertEntity r]"
proof -
  from assms obtain e where "returning e (insertToTable tableInfo e s1) = (Inr r, s')"
    by (simp add: updateLastRowOfArcToHLDPipelines_def Let_def)
  from insert_ok[OF this] show ?thesis by simp
qed

lemma stage2_blank_ok:
  assumes "addNewRowToArcToHLDPipelines tableInfo u pipelineId imageTag'
             hldCommitId' env' pr' repository s1 = (Inr r, s')"
  shows "entities s' = entities s1 @ [r] \<and> calls s' = calls s1 @ [InsertEntity r]"
proof -
  from assms obtain e where "returning e (insertToTable tableInfo e s1) = (Inr r, s')"
    by (simp add: addNewRowToArcToHLDPipelines_def Let_def)
  from insert_ok[OF this] show ?thesis by simp
qed

text \<open>
  Claim C9. A stage-2 call that succeeds makes one query and then exactly one write,
  whatever the branch: either an insert of the returned row, which is added to the
  store, or a replace of the returned row, which changes one position of the store.
  Every other row is as before.
\<close>

theorem stage2_success_writes_once:
  assumes ok: "updateACRToHLDPipeline tableInfo u pipelineId imageTag' hldCommitId' env' pr'
                 repository s = (Inr r, s')"
  shows "\<exists>w. calls s' = calls s @ [QueryEntities (partitionKey tableInfo) ''imageTag'' imageTag', w] \<and>
           ((w = InsertEntity r \<and> entities s' = entities s @ [r]) \<or>
            (w = ReplaceEntity r \<and>
             (\<exists>i<length (entities s). sameKey (entities s ! i) r \<and>
                entities s' = (entities s)[i := r])))"
proof -
  define entries where "entries = fst (findMatchingDeployments tableInfo ''imageTag'' imageTag' s)"
  define s1 where
    "s1 = s\<lparr>calls := calls s @ [QueryEntities (partitionKey tableInfo) ''imageTag'' imageTag']\<rparr>"
  have s1: "entities s1 = entities s"
    "calls s1 = calls s @ [QueryEntities (partitionKey tableInfo) ''imageTag'' imageTag']"
    by (simp_all add: s1_def)
  have q: "findMatchingDeployments tableInfo ''imageTag'' imageTag' s = (entries, s1)"
    by (subst query_split) (simp add: entries_def s1_def)
  show ?thesis
  proof (cases "entries = []")
    case True
    with ok q have "addNewRowToArcToHLDPipelines tableInfo u pipelineId imageTag'
             hldCommitId' env' pr' repository s1 = (Inr r, s')"
      by (simp add: updateACRToHLDPipeline_def)
    from stage2_blank_ok[OF this] show ?thesis by (simp add: s1)
  next
    case False
    obtain res s2 where m: "updateMatchingArcToHLDPipelineEntry entries tableInfo pipelineId
        imageTag' hldCommitId' env' pr' repository s1 = (res, s2)"
      by (cases "updateMatchingArcToHLDPipelineEntry entries tableInfo pipelineId
        imageTag' hldCommitId' env' pr' repository s1") 
    show ?thesis
    proof (cases res)
      case (Inl e)
      with ok q False m show ?thesis by (simp add: updateACRToHLDPipeline_def)
    next
      case (Inr fo)
      show ?thesis
      proof (cases fo)
        case None
        with Inr m have "s2 = s1" by (simp add: stage2_mutate_none)
        with ok q False m Inr None have "updateLastRowOfArcToHLDPipelines entries tableInfo u
            pipelineId imageTag' hldCommitId' env' pr' repository s1 = (Inr r, s')"
          by (simp add: updateACRToHLDPipeline_def)
        from stage2_clone_ok[OF this] show ?thesis by (simp add: s1)
      next
        case (Some fnd)
        with ok q False m Inr have "fnd = r" "s2 = s'"
          by (simp_all add: updateACRToHLDPipeline_def)
        with m Inr Some have "updateMatchingArcToHLDPipelineEntry entries tableInfo pipelineId
            imageTag' hldCommitId' env' pr' repository s1 = (Inr (Some r), s')"
          by simp
        from stage2_mutate_ok[OF this] show ?thesis by (simp add: s1)
      qed
    qed
  qed
qed

lemma stage2_example_run:
  "updateACRToHLDPipeline exampleTable exampleUuid ''200'' ''hello-spk-master-1234''
     ''DEF456'' ''QA'' None None (storeOf [stage1Row]) =
   (Inr (stage1Row\<lparr>p2 := Some ''200'', hldCommitId := Some ''def456'', env := Some ''qa''\<rparr>),
    \<lparr>entities = [stage1Row\<lparr>p2 := Some ''200'', hldCommitId := Some ''def456'',
                            env := Some ''qa''\<rparr>],
     calls = [QueryEntities ''spk'' ''imageTag'' ''hello-spk-master-1234'',
              ReplaceEntity (stage1Row\<lparr>p2 := Some ''200'', hldCommitId := Some ''def456'',
                               env := Some ''qa''\<rparr>)]\<rparr>)"
  by code_simp

theorem stage2_success_writes_once_witness:
  "updateACRToHLDPipeline exampleTable exampleUuid ''200'' ''hello-spk-master-1234''
     ''DEF456'' ''QA'' None None (storeOf [stage1Row]) =
   (Inr (stage1Row\<lparr>p2 := Some ''200'', hldCommitId := Some ''def456'', env := Some ''qa''\<rparr>),
    \<lparr>entities = [stage1Row\<lparr>p2 := Some ''200'', hldCommitId := Some ''def456'',
                            env := Some ''qa''\<rparr>],
     calls = [QueryEntities ''spk'' ''imageTag'' ''hello-spk-master-1234'',
              ReplaceEntity (stage1Row\<lparr>p2 := Some ''200'', hldCommitId := Some ''def456'',
                               env := Some ''qa''\<rparr>)]\<rparr>) \<and>
   (\<exists>w. [QueryEntities ''spk'' ''imageTag'' ''hello-spk-master-1234'',
              ReplaceEntity (stage1Row\<lparr>p2 := Some ''200'', hldCommitId := Some ''def456'',
                               env := Some ''qa''\<rparr>)]
          = [QueryEntities ''spk'' ''imageTag'' ''hello-spk-master-1234'', w] \<and>
        (w = InsertEntity (stage1Row\<lparr>p2 := Some ''200'', hldCommitId := Some ''def456'',
                               env := Some ''qa''\<rparr>) \<or>
         w = ReplaceEntity (stage1Row\<lparr>p2 := Some ''200'', hldCommitId := Some ''def456'',
                               env := Some ''qa''\<rparr>)))"
proof -
  have v: "partitionKey exampleTable = ''spk''" "calls (storeOf [stage1Row]) = []"
    by code_simp+
  from stage2_success_writes_once[OF stage2_example_run] stage2_example_run
  show ?thesis unfolding v by auto
qed

section \<open>Manifest commit\<close>

lemma finalizer_none:
  assumes "fst (findMatchingDeployments tableInfo ''p3'' pipelineId s) = []"
  shows "updateManifestCommitId tableInfo pipelineId manifestCommitId' repository s =
           (Inl NoCorrelationFoundError,
            s\<lparr>calls := calls s @ [QueryEntities (partitionKey tableInfo) ''p3'' pipelineId]\<rparr>)"
  unfolding updateManifestCommitId_def
  by (subst query_split) (simp add: assms)

lemma finalizer_some:
  assumes q: "fst (findMatchingDeployments tableInfo ''p3'' pipelineId s) = e0 # rest"
    and e2: "e2 = (if truthy repository
                   then e0\<lparr>manifestCommitId := Some manifestCommitId',
                           manifestRepo := map_option toLowerCase repository\<rparr>
                   else e0\<lparr>manifestCommitId := Some manifestCommitId'\<rparr>)"
    and rep: "replaceRow e2 (entities s) = Some ys"
  shows "updateManifestCommitId tableInfo pipelineId manifestCommitId' repository s =
           (Inr e2, \<lparr>entities = ys,
              calls = calls s @ [QueryEntities (partitionKey tableInfo) ''p3'' pipelineId,
                                 ReplaceEntity e2]\<rparr>)"
  unfolding updateManifestCommitId_def
  using rep
  by (subst query_split)
     (simp add: q e2 Let_def updateEntryInTable_def replaceEntity_def)

text \<open>
  Claim C6. When the query by \<open>p3\<close> finds no row, \<open>updateManifestCommitId\<close> fails with
  \<open>NoCorrelationFoundError\<close>; the only call made is the query, and the rows of the store
  are unchanged.
\<close>

theorem finalizer_without_record_fails:
  assumes "fst (findMatchingDeployments tableInfo ''p3'' pipelineId s) = []"
  shows "updateManifestCommitId tableInfo pipelineId manifestCommitId' repository s =
           (Inl NoCorrelationFoundError,
            s\<lparr>calls := calls s @ [QueryEntities (partitionKey tableInfo) ''p3'' pipelineId]\<rparr>) \<and>
         entities (snd (updateManifestCommitId tableInfo pipelineId manifestCommitId' repository s))
           = entities s"
proof -
  have "updateManifestCommitId tableInfo pipelineId manifestCommitId' repository s =
           (Inl NoCorrelationFoundError,
            s\<lparr>calls := calls s @ [QueryEntities (partitionKey tableInfo) ''p3'' pipelineId]\<rparr>)"
    unfolding updateManifestCommitId_def
    by (subst query_split) (simp add: assms)
  then show ?thesis by simp
qed

theorem finalizer_without_record_fails_witness:
  "fst (findMatchingDeployments exampleTable ''p3'' ''300'' (storeOf [stage2Row])) = [] \<and>
   updateManifestCommitId exampleTable ''300'' ''abc'' None (storeOf [stage2Row]) =
     (Inl NoCorrelationFoundError,
      \<lparr>entities = [stage2Row], calls = [QueryEntities ''spk'' ''p3'' ''300'']\<rparr>)"
proof -
  have h: "fst (findMatchingDeployments exampleTable ''p3'' ''300'' (storeOf [stage2Row])) = []"
    by (simp add: query_rows storeOf_def stage2Row_def stage1Row_def property_def exampleTable_def)
  from finalizer_without_record_fails[OF h, of "''abc''" None] h
  show ?thesis by (simp add: storeOf_def exampleTable_def)
qed

text \<open>
  Claim C7. Calling \<open>updateManifestCommitId\<close> a second time with the same run id, the
  same manifest commit id and the same repository leaves the rows of the store as they
  were after the first call, and returns the same result.
\<close>

theorem finalizer_twice_same_store:
  "entities (snd (updateManifestCommitId tableInfo pipelineId manifestCommitId' repository
      (snd (updateManifestCommitId tableInfo pipelineId manifestCommitId' repository s)))) =
   entities (snd (updateManifestCommitId tableInfo pipelineId manifestCommitId' repository s)) \<and>
   fst (updateManifestCommitId tableInfo pipelineId manifestCommitId' repository
      (snd (updateManifestCommitId tableInfo pipelineId manifestCommitId' repository s))) =
   fst (updateManifestCommitId tableInfo pipelineId manifestCommitId' repository s)"
proof -
  let ?P = "\<lambda>r. PartitionKey r = partitionKey tableInfo \<and> property ''p3'' r = Some pipelineId"
  let ?F = "updateManifestCommitId tableInfo pipelineId manifestCommitId' repository"
  show ?thesis
  proof (cases "filter ?P (entities s)")
    case Nil
    then have q: "fst (findMatchingDeployments tableInfo ''p3'' pipelineId s) = []"
      by (simp add: query_rows)
    have 1: "?F s = (Inl NoCorrelationFoundError,
            s\<lparr>calls := calls s @ [QueryEntities (partitionKey tableInfo) ''p3'' pipelineId]\<rparr>)"
      using q by (rule finalizer_none)
    have "fst (findMatchingDeployments tableInfo ''p3'' pipelineId (snd (?F s))) = []"
      by (simp add: 1 q)
    from finalizer_none[OF this] 1 show ?thesis by simp
  next
    case (Cons e0 rest)
    then have q: "fst (findMatchingDeployments tableInfo ''p3'' pipelineId s) = e0 # rest"
      by (simp add: query_rows)
    define e2 where "e2 = (if truthy repository
                   then e0\<lparr>manifestCommitId := Some manifestCommitId',
                           manifestRepo := map_option toLowerCase repository\<rparr>
                   else e0\<lparr>manifestCommitId := Some manifestCommitId'\<rparr>)"
    have "e0 \<in> set (filter ?P (entities s))" by (simp add: Cons)
    then have mem: "e0 \<in> set (entities s)" and P0: "?P e0" by simp_all
    have sk: "sameKey e0 e2" by (simp add: e2_def sameKey_def)
    from P0 have P2: "?P e2" by (simp add: e2_def property_def)
    from replaceRow_member[OF mem sk] obtain ys where rep: "replaceRow e2 (entities s) = Some ys"
      by blast
    from finalizer_some[OF q e2_def rep]
    have 1: "?F s = (Inr e2, \<lparr>entities = ys,
              calls = calls s @ [QueryEntities (partitionKey tableInfo) ''p3'' pipelineId,
                                 ReplaceEntity e2]\<rparr>)" .
    from replaceRow_head[OF rep, of ?P e0 rest] P2 Cons sk
    obtain rest' where h: "filter ?P ys = e2 # rest'" by blast
    have q2: "fst (findMatchingDeployments tableInfo ''p3'' pipelineId (snd (?F s))) = e2 # rest'"
      by (simp add: 1 query_rows h)
    have idem: "e2 = (if truthy repository
                   then e2\<lparr>manifestCommitId := Some manifestCommitId',
                           manifestRepo := map_option toLowerCase repository\<rparr>
                   else e2\<lparr>manifestCommitId := Some manifestCommitId'\<rparr>)"
      by (simp add: e2_def)
    have rep2: "replaceRow e2 (entities (snd (?F s))) = Some ys"
      using replaceRow_again[OF rep] by (simp add: 1)
    from finalizer_some[OF q2 idem rep2] 1 show ?thesis by simp
  qed
qed

section \<open>Stage 3\<close>

text \<open>
  Claim C5, amended. When the query by \<open>hldCommitId\<close> returns nothing and a non-empty
  PR id is given, the candidates are queried again by \<open>pr\<close>; when \<open>found\<close> is the first
  of them that passes the wildcard test on \<open>p3\<close> and \<open>manifestCommitId\<close>, that row of a
  well-formed store is replaced at its place, with its \<open>hldCommitId\<close> set to the input
  as given and its \<open>p3\<close> set to the lower-cased run id.
\<close>

theorem stage3_pr_fallback_mutates_in_place:
  assumes wf: "wellFormed s"
    and nohld: "fst (findMatchingDeployments tableInfo ''hldCommitId'' hldCommitId' s) = []"
    and prid: "prId \<noteq> []"
    and found: "find (matchesHLDtoManifest pipelineId manifestCommitId')
                  (fst (findMatchingDeployments tableInfo ''pr'' prId s)) = Some found"
  shows "\<exists>r s' i.
           updateHLDToManifestPipeline tableInfo u hldCommitId' pipelineId manifestCommitId'
             (Some prId) repository s = (Inr r, s') \<and>
           PartitionKey r = PartitionKey found \<and> RowKey r = RowKey found \<and>
           hldCommitId r = Some hldCommitId' \<and>
           p3 r = Some (toLowerCase pipelineId) \<and>
           i < length (entities s) \<and> entities s ! i = found \<and>
           entities s' = (entities s)[i := r] \<and>
           calls s' = calls s @ [QueryEntities (partitionKey tableInfo) ''hldCommitId'' hldCommitId',
                                 QueryEntities (partitionKey tableInfo) ''pr'' prId,
                                 ReplaceEntity r]"
proof -
  define entries where "entries = fst (findMatchingDeployments tableInfo ''pr'' prId s)"
  define r where "r = \<lparr>PartitionKey = PartitionKey found, RowKey = RowKey found,
                   commitId = commitId found, imageTag = imageTag found, p1 = p1 found,
                   service = service found, sourceRepo = sourceRepo found,
                   p2 = p2 found,
                   hldCommitId = Some hldCommitId',
                   env = env found,
                   pr = Some prId, hldRepo = hldRepo found,
                   p3 = Some (toLowerCase pipelineId),
                   manifestCommitId = lowerIfTruthy manifestCommitId',
                   manifestRepo = lowerIfTruthy repository\<rparr>"
  define c2 where "c2 = calls s @ [QueryEntities (partitionKey tableInfo) ''hldCommitId'' hldCommitId',
                                 QueryEntities (partitionKey tableInfo) ''pr'' prId]"
  from found have f: "find (matchesHLDtoManifest pipelineId manifestCommitId') entries = Some found"
    by (simp add: entries_def)
  then have "found \<in> set entries" by (simp add: find_member)
  then have ne: "entries \<noteq> []" and mem: "found \<in> set (entities s)"
    using query_member[of found tableInfo "''pr''" prId s] by (auto simp: entries_def)
  from mem obtain i where i: "i < length (entities s)" "entities s ! i = found"
    by (auto simp: in_set_conv_nth)
  have sk: "sameKey (entities s ! i) r" by (simp add: i r_def sameKey_def)
  from wf have "distinct (map keyOf (entities s))" by (simp add: wellFormed_def)
  from replaceRow_at[OF this i(1) sk]
  have rep: "replaceRow r (entities s) = Some ((entities s)[i := r])" .
  have tr: "truthy (Some prId)" by (simp add: truthy_def prid)
  have q1: "findMatchingDeployments tableInfo ''hldCommitId'' hldCommitId' s
     = ([], s\<lparr>calls := calls s @ [QueryEntities (partitionKey tableInfo) ''hldCommitId'' hldCommitId']\<rparr>)"
    by (subst query_split) (simp add: nohld)
  have mut: "updateHLDtoManifestEntry entries tableInfo hldCommitId' pipelineId manifestCommitId'
       (Some prId) repository (s\<lparr>calls := c2\<rparr>)
     = (Inr (Some r), \<lparr>entities = (entities s)[i := r], calls = c2 @ [ReplaceEntity r]\<rparr>)"
    by (simp add: updateHLDtoManifestEntry_def f tr r_def[symmetric]
        updateEntryInTable_def replaceEntity_def rep)
  have helper: "updateHLDtoManifestHelper entries tableInfo u hldCommitId' pipelineId
       manifestCommitId' (Some prId) repository (s\<lparr>calls := c2\<rparr>)
     = (Inr r, \<lparr>entities = (entities s)[i := r], calls = c2 @ [ReplaceEntity r]\<rparr>)"
    by (simp add: updateHLDtoManifestHelper_def ne mut)
  have q2: "findMatchingDeployments tableInfo ''pr'' prId
       (s\<lparr>calls := calls s @ [QueryEntities (partitionKey tableInfo) ''hldCommitId'' hldCommitId']\<rparr>)
     = (entries, s\<lparr>calls := c2\<rparr>)"
    by (subst query_split) (simp add: entries_def c2_def)
  have res: "updateHLDToManifestPipeline tableInfo u hldCommitId' pipelineId manifestCommitId'
             (Some prId) repository s
     = (Inr r, \<lparr>entities = (entities s)[i := r], calls = c2 @ [ReplaceEntity r]\<rparr>)"
    unfolding updateHLDToManifestPipeline_def
    by (simp add: q1 tr q2 helper)
  show ?thesis
    by (intro exI[of _ r] exI[of _ "\<lparr>entities = (entities s)[i := r],
          calls = c2 @ [ReplaceEntity r]\<rparr>"] exI[of _ i])
       (simp add: res i, simp add: r_def c2_def)
qed

theorem stage3_pr_fallback_mutates_in_place_witness:
  "wellFormed (storeOf [stage2Row]) \<and>
   fst (findMatchingDeployments exampleTable ''hldCommitId'' ''fedcba'' (storeOf [stage2Row])) = [] \<and>
   find (matchesHLDtoManifest ''B7'' None)
     (fst (findMatchingDeployments exampleTable ''pr'' ''42'' (storeOf [stage2Row])))
     = Some stage2Row \<and>
   (\<exists>r s'. updateHLDToManifestPipeline exampleTable exampleUuid ''fedcba'' ''B7'' None
              (Some ''42'') None (storeOf [stage2Row]) = (Inr r, s') \<and>
           RowKey r = ''0f8fad5bd9cb'' \<and> hldCommitId r = Some ''fedcba'' \<and>
           p3 r = Some ''b7'' \<and> entities s' = [r] \<and>
           calls s' = [QueryEntities ''spk'' ''hldCommitId'' ''fedcba'',
                       QueryEntities ''spk'' ''pr'' ''42'', ReplaceEntity r])"
proof -
  have h1: "wellFormed (storeOf [stage2Row])" by code_simp
  have h2: "fst (findMatchingDeployments exampleTable ''hldCommitId'' ''fedcba''
                  (storeOf [stage2Row])) = []" by code_simp
  have h3: "''42'' \<noteq> []" by simp
  have h4: "find (matchesHLDtoManifest ''B7'' None)
     (fst (findMatchingDeployments exampleTable ''pr'' ''42'' (storeOf [stage2Row])))
     = Some stage2Row" by code_simp
  have l: "toLowerCase ''B7'' = ''b7''" by code_simp
  have v: "partitionKey exampleTable = ''spk''" "entities (storeOf [stage2Row]) = [stage2Row]"
    "calls (storeOf [stage2Row]) = []" "RowKey stage2Row = ''0f8fad5bd9cb''" by code_simp+
  from stage3_pr_fallback_mutates_in_place[OF h1 h2 h3 h4, where u = exampleUuid
      and repository = None]
  obtain r s' where
    "updateHLDToManifestPipeline exampleTable exampleUuid ''fedcba'' ''B7'' None
              (Some ''42'') None (storeOf [stage2Row]) = (Inr r, s')"
    "RowKey r = ''0f8fad5bd9cb''" "hldCommitId r = Some ''fedcba''"
    "p3 r = Some ''b7''" "entities s' = [r]"
    "calls s' = [QueryEntities ''spk'' ''hldCommitId'' ''fedcba'',
                 QueryEntities ''spk'' ''pr'' ''42'', ReplaceEntity r]"
    by (auto simp: l v)
  with h1 h2 h4 show ?thesis by blast
qed

text \<open>
  Claim C5 as stated, with \<open>p3\<close> set to the run id itself, fails for a run id with an
  upper-case letter: the fallback query by \<open>pr\<close> returns one candidate that passes the
  wildcard test, and the row written has the \<open>p3\<close> value \<open>b7\<close> for the run id \<open>B7\<close>.
\<close>

theorem stage3_pr_fallback_p3_counterexample:
  "fst (findMatchingDeployments exampleTable ''hldCommitId'' ''fedcba'' (storeOf [stage2Row])) = [] \<and>
   fst (findMatchingDeployments exampleTable ''pr'' ''42'' (storeOf [stage2Row])) = [stage2Row] \<and>
   matchesHLDtoManifest ''B7'' None stage2Row \<and>
   fst (updateHLDToManifestPipeline exampleTable exampleUuid ''fedcba'' ''B7'' None (Some ''42'')
          None (storeOf [stage2Row]))
     = Inr (stage2Row\<lparr>hldCommitId := Some ''fedcba'', p3 := Some ''b7''\<rparr>) \<and>
   entities (snd (updateHLDToManifestPipeline exampleTable exampleUuid ''fedcba'' ''B7'' None
          (Some ''42'') None (storeOf [stage2Row])))
     = [stage2Row\<lparr>hldCommitId := Some ''fedcba'', p3 := Some ''b7''\<rparr>] \<and>
   p3 (stage2Row\<lparr>hldCommitId := Some ''fedcba'', p3 := Some ''b7''\<rparr>) \<noteq> Some ''B7''"
  by code_simp

section \<open>Lower-case storage\<close>

text \<open>
  The two stage-3 branches that insert a row lower-case the HLD commit id, the PR id and
  the manifest commit id.
\<close>

lemma stage3_clone_lower_cases:
  assumes "updateLastHLDtoManifestEntry entries tableInfo u hldCommitId' pipelineId
             manifestCommitId' pr' repository s = (Inr r, s')"
  shows "hldCommitId r = Some (toLowerCase hldCommitId') \<and> pr r = lowerIfTruthy pr' \<and>
         manifestCommitId r = lowerIfTruthy manifestCommitId'"
proof -
  from assms obtain e where "returning e (insertToTable tableInfo e s) = (Inr r, s')"
    and "hldCommitId e = Some (toLowerCase hldCommitId')" and "pr e = lowerIfTruthy pr'"
    and "manifestCommitId e = lowerIfTruthy manifestCommitId'"
    by (simp add: updateLastHLDtoManifestEntry_def Let_def)
  with insert_ok[OF this(1)] show ?thesis by simp
qed

lemma stage3_blank_lower_cases:
  assumes "addNewRowToHLDtoManifestPipeline tableInfo u hldCommitId' pipelineId
             manifestCommitId' pr' repository s = (Inr r, s')"
  shows "hldCommitId r = Some (toLowerCase hldCommitId') \<and> pr r = lowerIfTruthy pr' \<and>
         manifestCommitId r = lowerIfTruthy manifestCommitId'"
proof -
  from assms obtain e where "returning e (insertToTable tableInfo e s) = (Inr r, s')"
    and "hldCommitId e = Some (toLowerCase hldCommitId')" and "pr e = lowerIfTruthy pr'"
    and "manifestCommitId e = lowerIfTruthy manifestCommitId'"
    by (simp add: addNewRowToHLDtoManifestPipeline_def Let_def)
  with insert_ok[OF this(1)] show ?thesis by simp
qed

text \<open>
  Claim C1. The claim says that \<open>env\<close>, \<open>hldCommitId\<close>, \<open>pr\<close>, \<open>manifestCommitId\<close> and
  the repository fields are stored lower-case by every writing operation. Three runs on
  stores whose values are all lower-case show where the code stores the caller's casing:
  \<open>updateManifestCommitId\<close> stores the manifest commit id \<open>ABC123\<close> as given, and the
  in-place branch of stage 3 stores the HLD commit id \<open>DEF456\<close> and the PR id \<open>PR-42\<close>
  as given.
\<close>

theorem stage3_mutate_and_finalizer_keep_input_casing:
  "updateManifestCommitId exampleTable ''300'' ''ABC123'' None (storeOf [stage3Row]) =
     (Inr (stage3Row\<lparr>manifestCommitId := Some ''ABC123''\<rparr>),
      \<lparr>entities = [stage3Row\<lparr>manifestCommitId := Some ''ABC123''\<rparr>],
       calls = [QueryEntities ''spk'' ''p3'' ''300'',
                ReplaceEntity (stage3Row\<lparr>manifestCommitId := Some ''ABC123''\<rparr>)]\<rparr>) \<and>
   \<not> isLowerCase ''ABC123'' \<and>
   updateHLDToManifestPipeline exampleTable exampleUuid ''DEF456'' ''300'' None (Some ''42'') None
       (storeOf [stage2Row]) =
     (Inr (stage2Row\<lparr>hldCommitId := Some ''DEF456'', p3 := Some ''300''\<rparr>),
      \<lparr>entities = [stage2Row\<lparr>hldCommitId := Some ''DEF456'', p3 := Some ''300''\<rparr>],
       calls = [QueryEntities ''spk'' ''hldCommitId'' ''DEF456'',
                QueryEntities ''spk'' ''pr'' ''42'',
                ReplaceEntity (stage2Row\<lparr>hldCommitId := Some ''DEF456'', p3 := Some ''300''\<rparr>)]\<rparr>) \<and>
   \<not> isLowerCase ''DEF456'' \<and>
   updateHLDToManifestPipeline exampleTable exampleUuid ''def456'' ''300'' None (Some ''PR-42'')
       None (storeOf [stage2Row]) =
     (Inr (stage2Row\<lparr>pr := Some ''PR-42'', p3 := Some ''300''\<rparr>),
      \<lparr>entities = [stage2Row\<lparr>pr := Some ''PR-42'', p3 := Some ''300''\<rparr>],
       calls = [QueryEntities ''spk'' ''hldCommitId'' ''def456'',
                ReplaceEntity (stage2Row\<lparr>pr := Some ''PR-42'', p3 := Some ''300''\<rparr>)]\<rparr>) \<and>
   \<not> isLowerCase ''PR-42''"
  by code_simp

end
